theory Spec2Isabelle
  imports Complex_Main "HOL-Library.Multiset"
begin

section \<open>Python values and string primitives\<close>

text \<open>
  Strings are lists of 8-bit characters, read as the code points 0..255. Python floats are
  idealised as rationals with one extra value for the infinities: every arithmetic step of the
  model is exact, so rounding of IEEE doubles is outside the model. Python integers are
  unbounded (\<open>int\<close>), and the conversion \<open>int(str)\<close> is taken without a length limit.
\<close>

datatype py_error = KeyError | IndexError | OverflowError | RuntimeError string

text \<open>
  The values a cell of the reference table can hold, as far as the parsers tell them apart:
  \<open>NA\<close> is anything \<open>pd.isna\<close> accepts (None, NaN), \<open>PyInt\<close> an instance of \<open>int\<close>,
  \<open>PyFloat\<close> a finite instance of \<open>float\<close>, \<open>PyInf\<close> an infinite float, \<open>PyStr\<close> an
  instance of \<open>str\<close>, and \<open>PyObject\<close> any object that is none of these (a numpy integer
  scalar, for one, is an instance of neither \<open>int\<close> nor \<open>float\<close>).
\<close>

datatype cell = NA | PyInt int | PyFloat rat | PyInf | PyStr string | PyObject

definition is_digit :: "char \<Rightarrow> bool" where
  "is_digit c = (48 \<le> (of_char c :: nat) \<and> (of_char c :: nat) \<le> 57)"

definition is_space :: "char \<Rightarrow> bool" where
  "is_space c = ((of_char c :: nat) \<in> {9, 10, 11, 12, 13, 28, 29, 30, 31, 32, 133, 160})"

definition strip :: "string \<Rightarrow> string" where
  "strip s = rev (dropWhile is_space (rev (dropWhile is_space s)))"

definition lower_char :: "char \<Rightarrow> char" where
  "lower_char c =
     (let n = (of_char c :: nat)
      in if (65 \<le> n \<and> n \<le> 90) \<or> (192 \<le> n \<and> n \<le> 222 \<and> n \<noteq> 215)
         then char_of (n + 32) else c)"

definition lower :: "string \<Rightarrow> string" where
  "lower s = map lower_char s"

definition startswith :: "string \<Rightarrow> string \<Rightarrow> bool" where
  "startswith s p = (take (length p) s = p)"

text \<open>\<open>contains s sub\<close> is Python's \<open>sub in s\<close>.\<close>

fun contains :: "string \<Rightarrow> string \<Rightarrow> bool" where
  "contains [] sub = (sub = [])"
| "contains (c # cs) sub = (startswith (c # cs) sub \<or> contains cs sub)"

text \<open>
  \<open>split_on sep s\<close> is \<open>s.split(sep)\<close> for a non-empty separator: the separators are found
  from left to right without overlap, and the result has one more element than separators.
\<close>

fun split_on :: "string \<Rightarrow> string \<Rightarrow> string list" where
  "split_on sep [] = [[]]"
| "split_on sep (c # cs) =
     (if sep \<noteq> [] \<and> startswith (c # cs) sep
      then [] # split_on sep (drop (length sep - 1) cs)
      else (case split_on sep cs of
              [] \<Rightarrow> [[c]]
            | x # xs \<Rightarrow> (c # x) # xs))"

text \<open>\<open>findall_digits s\<close> is \<open>re.findall(r'\d+', s)\<close>: the maximal runs of decimal digits.\<close>

function findall_digits :: "string \<Rightarrow> string list" where
  "findall_digits s =
     (case dropWhile (\<lambda>c. \<not> is_digit c) s of
        [] \<Rightarrow> []
      | d # ds \<Rightarrow> takeWhile is_digit (d # ds) # findall_digits (dropWhile is_digit ds))"
  by pat_completeness auto
termination
proof (relation "measure length")
  show "wf (measure length)" by simp
next
  fix s :: string and d ds
  assume a: "dropWhile (\<lambda>c. \<not> is_digit c) s = d # ds"
  have "length (dropWhile is_digit ds) \<le> length ds"
    by (rule length_dropWhile_le)
  moreover have "length (d # ds) \<le> length s"
    using length_dropWhile_le [of "\<lambda>c. \<not> is_digit c" s] a by simp
  ultimately show "(dropWhile is_digit ds, s) \<in> measure length" by simp
qed

declare findall_digits.simps [simp del]

definition digit_val :: "char \<Rightarrow> int" where
  "digit_val c = int (of_char c) - 48"

definition int_of_digits :: "string \<Rightarrow> int" where
  "int_of_digits ds = foldl (\<lambda>a c. 10 * a + digit_val c) 0 ds"

text \<open>\<open>int(x)\<close> on a finite float truncates towards zero.\<close>

definition trunc :: "rat \<Rightarrow> int" where
  "trunc r = (if 0 \<le> r then \<lfloor>r\<rfloor> else \<lceil>r\<rceil>)"

text \<open>\<open>str(n)\<close> for an integer, as the f-strings of the risk model print it.\<close>

fun str_nat :: "nat \<Rightarrow> string" where
  "str_nat n = (if n < 10 then [char_of (48 + n)] else str_nat (n div 10) @ [char_of (48 + n mod 10)])"

declare str_nat.simps [simp del]

definition str_int :: "int \<Rightarrow> string" where
  "str_int i = (if i < 0 then CHR ''-'' # str_nat (nat (- i)) else str_nat (nat i))"

section \<open>The collectors database (database.py)\<close>

datatype RiskLevel = HIGH | MEDIUM | LOW | NOT_FOUND

text \<open>
  A row of the data frame is a series: labels with their values. \<open>series_get\<close> is
  \<open>row.get(key, default)\<close>.
\<close>

type_synonym series = "(string \<times> cell) list"

datatype dataframe = DataFrame (columns: "string list") (records: "series list")

definition series_get :: "series \<Rightarrow> string \<Rightarrow> cell \<Rightarrow> cell" where
  "series_get row key dflt = (case map_of row key of Some v \<Rightarrow> v | None \<Rightarrow> dflt)"

text \<open>
  \<open>select_rows df package_id\<close> is \<open>self.df[self.df['APK'] == package_id]\<close>: a KeyError when
  the frame has no column \<open>APK\<close>, otherwise the rows whose \<open>APK\<close> cell is the string
  \<open>package_id\<close>, in table order.
\<close>

definition select_rows :: "dataframe \<Rightarrow> string \<Rightarrow> py_error + series list" where
  "select_rows df package_id =
     (if ''APK'' \<in> set (columns df)
      then Inr (filter (\<lambda>row. series_get row ''APK'' NA = PyStr package_id) (records df))
      else Inl KeyError)"

text \<open>The body of \<open>_parse_frequency\<close> inside its \<open>try\<close>, and the function with its handler.\<close>

definition parse_frequency_try :: "cell \<Rightarrow> py_error + int" where
  "parse_frequency_try v =
     (case v of
        NA \<Rightarrow> Inr 0
      | PyInt i \<Rightarrow> Inr i
      | PyFloat r \<Rightarrow> Inr (trunc r)
      | PyInf \<Rightarrow> Inl OverflowError
      | PyStr s \<Rightarrow>
          (if s = [] then Inr 0
           else (case findall_digits s of
                   n # _ \<Rightarrow> Inr (int_of_digits n)
                 | [] \<Rightarrow> Inr 0))
      | PyObject \<Rightarrow> Inr 0)"

definition parse_frequency :: "cell \<Rightarrow> int" where
  "parse_frequency v = (case parse_frequency_try v of Inl e \<Rightarrow> 0 | Inr n \<Rightarrow> n)"

definition parse_data_types :: "cell \<Rightarrow> string list" where
  "parse_data_types v =
     (case v of
        PyStr s \<Rightarrow> (if s = [] then [] else map (\<lambda>t. lower (strip t)) (split_on '','' s))
      | _ \<Rightarrow> [])"

record app_data =
  collection_frequency :: int
  data_types :: "string list"

definition db_get_app_details_try :: "dataframe \<Rightarrow> string \<Rightarrow> py_error + app_data option" where
  "db_get_app_details_try df package_id =
     (case select_rows df package_id of
        Inl e \<Rightarrow> Inl e
      | Inr [] \<Rightarrow> Inr None
      | Inr (row # _) \<Rightarrow>
          Inr (Some \<lparr>collection_frequency =
                       parse_frequency (series_get row ''collection_frequency'' (PyInt 0)),
                     data_types = parse_data_types (series_get row ''data_types'' (PyStr []))\<rparr>))"

definition db_get_app_details :: "dataframe \<Rightarrow> string \<Rightarrow> app_data option" where
  "db_get_app_details df package_id =
     (case db_get_app_details_try df package_id of Inl e \<Rightarrow> None | Inr r \<Rightarrow> r)"

definition get_risk_level_try :: "dataframe \<Rightarrow> string \<Rightarrow> py_error + RiskLevel" where
  "get_risk_level_try df package_id =
     (case select_rows df package_id of
        Inl e \<Rightarrow> Inl e
      | Inr [] \<Rightarrow> Inr NOT_FOUND
      | Inr (row # _) \<Rightarrow>
          (let frequency = parse_frequency (series_get row ''collection_frequency'' (PyInt 0))
           in if frequency > 75 then Inr HIGH
              else if frequency > 25 then Inr MEDIUM
              else Inr LOW))"

definition get_risk_level :: "dataframe \<Rightarrow> string \<Rightarrow> RiskLevel" where
  "get_risk_level df package_id =
     (case get_risk_level_try df package_id of Inl e \<Rightarrow> NOT_FOUND | Inr l \<Rightarrow> l)"

definition get_risk_score_try :: "dataframe \<Rightarrow> string \<Rightarrow> py_error + rat" where
  "get_risk_score_try df package_id =
     (case select_rows df package_id of
        Inl e \<Rightarrow> Inl e
      | Inr [] \<Rightarrow> Inr 0
      | Inr (row # _) \<Rightarrow>
          (let base_score = parse_frequency (series_get row ''collection_frequency'' (PyInt 0));
               data_types = parse_data_types (series_get row ''data_types'' (PyStr []));
               sensitive_multiplier = 1 + rat_of_nat (length data_types) * (1 / 10)
           in Inr (min 100 (rat_of_int base_score * sensitive_multiplier))))"

definition get_risk_score :: "dataframe \<Rightarrow> string \<Rightarrow> rat" where
  "get_risk_score df package_id =
     (case get_risk_score_try df package_id of Inl e \<Rightarrow> 0 | Inr s \<Rightarrow> s)"

definition get_risk_factors_try :: "dataframe \<Rightarrow> string \<Rightarrow> py_error + string list" where
  "get_risk_factors_try df package_id =
     (case select_rows df package_id of
        Inl e \<Rightarrow> Inl e
      | Inr [] \<Rightarrow> Inr []
      | Inr (row # _) \<Rightarrow>
          (let frequency = parse_frequency (series_get row ''collection_frequency'' (PyInt 0));
               data_types = parse_data_types (series_get row ''data_types'' (PyStr []))
           in Inr ((if frequency > 75 then [''High data collection frequency'']
                    else if frequency > 25 then [''Moderate data collection frequency'']
                    else [])
                   @ (if ''location'' \<in> set data_types then [''Collects location data''] else [])
                   @ (if ''contacts'' \<in> set data_types then [''Accesses contact information''] else [])
                   @ (if ''camera'' \<in> set data_types then [''Uses camera''] else [])
                   @ (if ''microphone'' \<in> set data_types then [''Uses microphone''] else []))))"

definition get_risk_factors :: "dataframe \<Rightarrow> string \<Rightarrow> string list" where
  "get_risk_factors df package_id =
     (case get_risk_factors_try df package_id of Inl e \<Rightarrow> [] | Inr fs \<Rightarrow> fs)"

definition get_known_behaviors_try :: "dataframe \<Rightarrow> string \<Rightarrow> py_error + string list" where
  "get_known_behaviors_try df package_id =
     (case select_rows df package_id of
        Inl e \<Rightarrow> Inl e
      | Inr [] \<Rightarrow> Inr []
      | Inr (row # _) \<Rightarrow>
          (let data_types = parse_data_types (series_get row ''data_types'' (PyStr []));
               frequency = parse_frequency (series_get row ''collection_frequency'' (PyInt 0))
           in Inr ((if frequency > 0
                    then [''Collects data approximately '' @ str_int frequency @ '' times per day'']
                    else [])
                   @ map (\<lambda>data_type. ''Known to collect '' @ data_type @ '' data'') data_types)))"

definition get_known_behaviors :: "dataframe \<Rightarrow> string \<Rightarrow> string list" where
  "get_known_behaviors df package_id =
     (case get_known_behaviors_try df package_id of Inl e \<Rightarrow> [] | Inr bs \<Rightarrow> bs)"

text \<open>
  The tables of the test suite (tests/test_database.py), with the key column under the name
  \<open>APK\<close> that the code reads and the numbers as Python ints.
\<close>

definition sample_db :: dataframe where
  "sample_db = DataFrame [''app_name'', ''APK'', ''collection_frequency'', ''data_types'']
     [[(''app_name'', PyStr ''Test App 1''), (''APK'', PyStr ''com.test.app1''),
       (''collection_frequency'', PyInt 200), (''data_types'', PyStr ''location,contacts'')],
      [(''app_name'', PyStr ''Test App 2''), (''APK'', PyStr ''com.test.app2''),
       (''collection_frequency'', PyInt 75), (''data_types'', PyStr ''location'')],
      [(''app_name'', PyStr ''Test App 3''), (''APK'', PyStr ''com.test.app3''),
       (''collection_frequency'', PyInt 25), (''data_types'', PyStr ''device_info'')]]"


text \<open>A table without the column \<open>APK\<close>: every access raises KeyError.\<close>

definition keyless_db :: dataframe where
  "keyless_db = DataFrame [''package_id'', ''collection_frequency'']
     [[(''package_id'', PyStr ''com.test.app1''), (''collection_frequency'', PyInt 200)]]"

section \<open>The permission categorizer (utils/risk.py)\<close>

text \<open>
  The category table is a dictionary in insertion order: the inner loop of
  \<open>categorize_permissions\<close> walks it from the first category to the last.
\<close>

definition PERMISSION_CATEGORIES :: "(string \<times> string list) list" where
  "PERMISSION_CATEGORIES =
     [(''location'',
         [''android.permission.ACCESS_FINE_LOCATION'',
          ''android.permission.ACCESS_COARSE_LOCATION'',
          ''android.permission.ACCESS_BACKGROUND_LOCATION'']),
      (''camera'', [''android.permission.CAMERA'']),
      (''microphone'', [''android.permission.RECORD_AUDIO'']),
      (''contacts'',
         [''android.permission.READ_CONTACTS'',
          ''android.permission.WRITE_CONTACTS'',
          ''android.permission.GET_ACCOUNTS'']),
      (''storage'',
         [''android.permission.READ_EXTERNAL_STORAGE'',
          ''android.permission.WRITE_EXTERNAL_STORAGE'',
          ''android.permission.MANAGE_EXTERNAL_STORAGE'',
          ''android.permission.ACCESS_MEDIA_LOCATION'']),
      (''phone'',
         [''android.permission.READ_PHONE_STATE'',
          ''android.permission.CALL_PHONE'',
          ''android.permission.READ_CALL_LOG'',
          ''android.permission.WRITE_CALL_LOG'',
          ''android.permission.ADD_VOICEMAIL'',
          ''android.permission.USE_SIP'',
          ''android.permission.PROCESS_OUTGOING_CALLS'']),
      (''sms'',
         [''android.permission.SEND_SMS'',
          ''android.permission.RECEIVE_SMS'',
          ''android.permission.READ_SMS'',
          ''android.permission.RECEIVE_WAP_PUSH'',
          ''android.permission.RECEIVE_MMS'']),
      (''calendar'',
         [''android.permission.READ_CALENDAR'',
          ''android.permission.WRITE_CALENDAR'']),
      (''sensors'',
         [''android.permission.BODY_SENSORS'',
          ''android.permission.USE_FINGERPRINT'',
          ''android.permission.USE_BIOMETRIC'']),
      (''activity_recognition'', [''android.permission.ACTIVITY_RECOGNITION''])]"

definition PRIVACY_CRITICAL_PERMISSIONS :: "string list" where
  "PRIVACY_CRITICAL_PERMISSIONS = concat (map snd PERMISSION_CATEGORIES)"

record categorized =
  privacy_critical :: "string list"
  categories :: "(string \<times> string list) list"
  other :: "string list"

text \<open>
  The inner loop: the first category of the table whose members hold the permission, or
  \<open>None\<close> when the loop ends with \<open>categorized\<close> still false.
\<close>

fun find_category :: "(string \<times> string list) list \<Rightarrow> string \<Rightarrow> string option" where
  "find_category [] permission = None"
| "find_category ((category, perms) # rest) permission =
     (if permission \<in> set perms then Some category else find_category rest permission)"

text \<open>\<open>d[category].append(permission)\<close> on a dictionary of lists.\<close>

fun append_to ::
  "(string \<times> string list) list \<Rightarrow> string \<Rightarrow> string \<Rightarrow> (string \<times> string list) list" where
  "append_to [] category permission = []"
| "append_to ((k, v) # d) category permission =
     (if k = category then (k, v @ [permission]) # d
      else (k, v) # append_to d category permission)"

definition categorize_step :: "categorized \<Rightarrow> string \<Rightarrow> categorized" where
  "categorize_step result permission =
     (let result1 =
            (if permission \<in> set PRIVACY_CRITICAL_PERMISSIONS
             then result\<lparr>privacy_critical := privacy_critical result @ [permission]\<rparr>
             else result)
      in case find_category PERMISSION_CATEGORIES permission of
           Some category \<Rightarrow>
             result1\<lparr>categories := append_to (categories result1) category permission\<rparr>
         | None \<Rightarrow> result1\<lparr>other := other result1 @ [permission]\<rparr>)"

definition categorize_permissions :: "string list \<Rightarrow> categorized" where
  "categorize_permissions permissions =
     (let result = foldl categorize_step
                     \<lparr>privacy_critical = [],
                      categories = map (\<lambda>(category, _). (category, [])) PERMISSION_CATEGORIES,
                      other = []\<rparr>
                     permissions
      in result\<lparr>categories := filter (\<lambda>(k, v). v \<noteq> []) (categories result)\<rparr>)"

text \<open>
  The state of the loop after the permissions \<open>seen\<close>: every category holds, in input
  order, the permissions whose first match it is; \<open>other\<close> holds those without a match.
\<close>

definition sorted_into :: "string list \<Rightarrow> categorized \<Rightarrow> bool" where
  "sorted_into seen result \<longleftrightarrow>
     privacy_critical result = filter (\<lambda>p. p \<in> set PRIVACY_CRITICAL_PERMISSIONS) seen
     \<and> categories result
         = map (\<lambda>(c, _). (c, filter (\<lambda>p. find_category PERMISSION_CATEGORIES p = Some c) seen))
             PERMISSION_CATEGORIES
     \<and> other result = filter (\<lambda>p. find_category PERMISSION_CATEGORIES p = None) seen"

section \<open>The device text parser (utils/adb.py)\<close>

text \<open>\<open>item xs i\<close> is \<open>xs[i]\<close> for a non-negative index: an IndexError out of range.\<close>

definition item :: "'a list \<Rightarrow> nat \<Rightarrow> py_error + 'a" where
  "item xs i = (if i < length xs then Inr (xs ! i) else Inl IndexError)"

text \<open>\<open>split_ws s\<close> is \<open>s.split()\<close>: the maximal runs of non-whitespace characters.\<close>

function split_ws :: "string \<Rightarrow> string list" where
  "split_ws s =
     (case dropWhile is_space s of
        [] \<Rightarrow> []
      | c # cs \<Rightarrow> takeWhile (\<lambda>x. \<not> is_space x) (c # cs)
                   # split_ws (dropWhile (\<lambda>x. \<not> is_space x) cs))"
  by pat_completeness auto
termination
proof (relation "measure length")
  show "wf (measure length)" by simp
next
  fix s :: string and c cs
  assume a: "dropWhile is_space s = c # cs"
  have "length (dropWhile (\<lambda>x. \<not> is_space x) cs) \<le> length cs"
    by (rule length_dropWhile_le)
  moreover have "length (c # cs) \<le> length s"
    using length_dropWhile_le [of is_space s] a by simp
  ultimately show "(dropWhile (\<lambda>x. \<not> is_space x) cs, s) \<in> measure length" by simp
qed

declare split_ws.simps [simp del]

record permission_lists =
  requested :: "string list"
  granted :: "string list"
  denied :: "string list"

record details =
  package_id :: string
  app_name :: string
  permissions :: permission_lists
  install_source :: "string option"
  first_install_time :: "string option"
  last_update_time :: "string option"
  network_permissions :: "string list"
  shared_libraries :: "string list"
  shared_user_ids :: "string list"

text \<open>The result of \<open>subprocess.run\<close>, as far as the parser reads it.\<close>

record completed_process =
  returncode :: int
  stdout :: string

text \<open>
  The body of the \<open>try\<close> that extracts the label: the part after the first \<open>label=\<close>, then
  the text between its first two double quotes if it has one, else its first
  whitespace-delimited token. An empty \<open>label_part\<close> has no token: IndexError.
\<close>

definition extract_label :: "string \<Rightarrow> py_error + string" where
  "extract_label line =
     (case item (split_on ''label='' line) 1 of
        Inl e \<Rightarrow> Inl e
      | Inr label_part \<Rightarrow>
          (if contains label_part [CHR 0x22]
           then item (split_on [CHR 0x22] label_part) 1
           else item (split_ws label_part) 0))"

text \<open>
  One iteration of the loop over the lines. The state is the dictionary \<open>details\<close> and
  \<open>current_section\<close>. Only the label extraction has a handler; an IndexError of any other
  branch would leave the function.
\<close>

definition parse_line ::
  "details \<times> string option \<Rightarrow> string \<Rightarrow> py_error + details \<times> string option" where
  "parse_line st raw =
     (let d = fst st; current_section = snd st; line = strip raw
      in if contains line ''applicationInfo'' then
           (if contains line ''label='' then
              (case extract_label line of
                 Inr name \<Rightarrow> Inr (d\<lparr>app_name := name\<rparr>, current_section)
               | Inl e \<Rightarrow> Inr (d, current_section))
            else Inr (d, current_section))
         else if contains line ''installInitiator:'' then
           (case item (split_on ''installInitiator:'' line) 1 of
              Inl e \<Rightarrow> Inl e
            | Inr x \<Rightarrow> Inr (d\<lparr>install_source := Some (strip x)\<rparr>, current_section))
         else if contains line ''firstInstallTime='' then
           (case item (split_on ''firstInstallTime='' line) 1 of
              Inl e \<Rightarrow> Inl e
            | Inr x \<Rightarrow>
                (case item (split_on '' '' x) 0 of
                   Inl e \<Rightarrow> Inl e
                 | Inr t \<Rightarrow> Inr (d\<lparr>first_install_time := Some t\<rparr>, current_section)))
         else if contains line ''lastUpdateTime='' then
           (case item (split_on ''lastUpdateTime='' line) 1 of
              Inl e \<Rightarrow> Inl e
            | Inr x \<Rightarrow>
                (case item (split_on '' '' x) 0 of
                   Inl e \<Rightarrow> Inl e
                 | Inr t \<Rightarrow> Inr (d\<lparr>last_update_time := Some t\<rparr>, current_section)))
         else if contains line ''requested permissions:'' then Inr (d, Some ''requested'')
         else if contains line ''runtime permissions:'' then Inr (d, Some ''runtime'')
         else if contains line ''install permissions:'' then Inr (d, Some ''install'')
         else if current_section = Some ''requested'' \<and> startswith line ''android.permission.'' then
           Inr (d\<lparr>permissions := (permissions d)
                     \<lparr>requested := requested (permissions d) @ [strip line]\<rparr>\<rparr>,
                current_section)
         else if current_section = Some ''runtime'' \<and> contains line ''granted=true'' then
           (case item (split_on '':'' line) 0 of
              Inl e \<Rightarrow> Inl e
            | Inr x \<Rightarrow>
                Inr (d\<lparr>permissions := (permissions d)
                          \<lparr>granted := granted (permissions d) @ [strip x]\<rparr>\<rparr>,
                     current_section))
         else if current_section = Some ''runtime'' \<and> contains line ''granted=false'' then
           (case item (split_on '':'' line) 0 of
              Inl e \<Rightarrow> Inl e
            | Inr x \<Rightarrow>
                Inr (d\<lparr>permissions := (permissions d)
                          \<lparr>denied := denied (permissions d) @ [strip x]\<rparr>\<rparr>,
                     current_section))
         else if contains line ''INTERNET'' \<or> contains line ''NETWORK'' then
           Inr (d\<lparr>network_permissions := network_permissions d @ [strip line]\<rparr>,
                current_section)
         else if contains line ''libraryInfo'' then
           Inr (d\<lparr>shared_libraries := shared_libraries d @ [strip line]\<rparr>, current_section)
         else if contains line ''sharedUser='' then
           (case item (split_on ''sharedUser='' line) 1 of
              Inl e \<Rightarrow> Inl e
            | Inr x \<Rightarrow>
                Inr (d\<lparr>shared_user_ids := shared_user_ids d @ [strip x]\<rparr>, current_section))
         else Inr (d, current_section))"

fun parse_lines ::
  "details \<times> string option \<Rightarrow> string list \<Rightarrow> py_error + details \<times> string option" where
  "parse_lines st [] = Inr st"
| "parse_lines st (raw # rest) =
     (case parse_line st raw of
        Inl e \<Rightarrow> Inl e
      | Inr st' \<Rightarrow> parse_lines st' rest)"

definition initial_details :: "string \<Rightarrow> details" where
  "initial_details pkg =
     \<lparr>package_id = pkg, app_name = pkg,
      permissions = \<lparr>requested = [], granted = [], denied = []\<rparr>,
      install_source = None, first_install_time = None, last_update_time = None,
      network_permissions = [], shared_libraries = [], shared_user_ids = []\<rparr>"

text \<open>
  \<open>get_app_details result pkg\<close> is \<open>AndroidDevice.get_app_details(package_id)\<close> once the
  dump command has returned \<open>result\<close>.
\<close>

definition get_app_details :: "completed_process \<Rightarrow> string \<Rightarrow> py_error + details" where
  "get_app_details result pkg =
     (if returncode result \<noteq> 0 then Inl (RuntimeError (''ADB command failed for '' @ pkg))
      else (case parse_lines (initial_details pkg, None) (split_on [CHR 0x0A] (stdout result)) of
              Inl e \<Rightarrow> Inl e
            | Inr st \<Rightarrow> Inr (fst st)))"

text \<open>A dump in which no line is recognised: two lines, the second ending in CR LF.\<close>

definition unrecognised_dump :: completed_process where
  "unrecognised_dump =
     \<lparr>returncode = 0,
      stdout = ''Package [com.example.app] (1a2b3c):'' @ [CHR 0x0A]
               @ ''  versionCode=42 minSdk=21'' @ [CHR 0x0D, CHR 0x0A]\<rparr>"

text \<open>
  \<open>no_line result matches\<close>: no line of the dump, stripped as the loop strips it, matches.
\<close>

definition no_line :: "completed_process \<Rightarrow> (string \<Rightarrow> bool) \<Rightarrow> bool" where
  "no_line result matches \<longleftrightarrow>
     (\<forall>raw \<in> set (split_on [CHR 0x0A] (stdout result)). \<not> matches (strip raw))"

section \<open>The scan orchestrator (scanner.py, device.py)\<close>

text \<open>
  \<open>AndroidDevice.get_installed_apps\<close> once the list command has returned \<open>result\<close>.
  \<open>pkg.replace('package:', '')\<close> removes every occurrence of the prefix: the pieces of
  \<open>pkg.split('package:')\<close> joined.
\<close>

definition get_installed_apps :: "completed_process \<Rightarrow> py_error + string list" where
  "get_installed_apps result =
     (if returncode result \<noteq> 0 then Inl (RuntimeError ''ADB command failed'')
      else Inr (map (\<lambda>pkg. strip (concat (split_on ''package:'' pkg)))
                  (filter (\<lambda>pkg. strip pkg \<noteq> [])
                     (split_on [CHR 0x0A] (strip (stdout result))))))"

text \<open>
  The two collaborators of the scanner, each given by what its methods return: a value or the
  exception raised. A method is a function of its argument; the scanner calls each at most
  once per package of the list.
\<close>

record device =
  device_get_installed_apps :: "py_error + string list"
  device_get_app_details :: "string \<Rightarrow> py_error + details"

record database =
  database_get_app_details :: "string \<Rightarrow> py_error + app_data option"
  database_get_risk_level :: "string \<Rightarrow> py_error + RiskLevel"

text \<open>
  The \<open>Device\<close> behind which the two adb commands return \<open>listing\<close> and \<open>dump pkg\<close>, and the
  \<open>CollectorsDatabase\<close> over a data frame.
\<close>

definition adb_device :: "completed_process \<Rightarrow> (string \<Rightarrow> completed_process) \<Rightarrow> device" where
  "adb_device listing dump =
     \<lparr>device_get_installed_apps = get_installed_apps listing,
      device_get_app_details = (\<lambda>pkg. get_app_details (dump pkg) pkg)\<rparr>"

definition collectors_database :: "dataframe \<Rightarrow> database" where
  "collectors_database df =
     \<lparr>database_get_app_details = (\<lambda>pkg. Inr (db_get_app_details df pkg)),
      database_get_risk_level = (\<lambda>pkg. Inr (get_risk_level df pkg))\<rparr>"

fun level_name :: "RiskLevel \<Rightarrow> string" where
  "level_name HIGH = ''HIGH''"
| "level_name MEDIUM = ''MEDIUM''"
| "level_name LOW = ''LOW''"
| "level_name NOT_FOUND = ''NOT_FOUND''"

text \<open>One entry of the result mapping; the fields are the keys of the dictionary.\<close>

record app_result =
  result_app_name :: string
  result_package_id :: string
  result_permissions :: permission_lists
  result_install_source :: "string option"
  result_first_install_time :: "string option"
  result_last_update_time :: "string option"
  result_risk_level :: string
  result_collection_frequency :: int
  result_data_types :: "string list"

text \<open>The body of the inner \<open>try\<close>: the entry for one package, or the exception raised.\<close>

definition scan_one :: "device \<Rightarrow> database \<Rightarrow> string \<Rightarrow> py_error + app_result" where
  "scan_one dev db pkg =
     (case device_get_app_details dev pkg of
        Inl e \<Rightarrow> Inl e
      | Inr app_details \<Rightarrow>
          (case database_get_app_details db pkg of
             Inl e \<Rightarrow> Inl e
           | Inr app_data \<Rightarrow>
               (case database_get_risk_level db pkg of
                  Inl e \<Rightarrow> Inl e
                | Inr risk_level \<Rightarrow>
                    Inr \<lparr>result_app_name = app_name app_details,
                         result_package_id = pkg,
                         result_permissions = permissions app_details,
                         result_install_source = install_source app_details,
                         result_first_install_time = first_install_time app_details,
                         result_last_update_time = last_update_time app_details,
                         result_risk_level = level_name risk_level,
                         result_collection_frequency =
                           (case app_data of Some a \<Rightarrow> collection_frequency a | None \<Rightarrow> 0),
                         result_data_types =
                           (case app_data of Some a \<Rightarrow> data_types a | None \<Rightarrow> [])\<rparr>)))"

text \<open>The loop over the installed packages: an exception of the body skips the package.\<close>

fun scan_loop ::
  "device \<Rightarrow> database \<Rightarrow> (string \<rightharpoonup> app_result) \<Rightarrow> string list \<Rightarrow> (string \<rightharpoonup> app_result)" where
  "scan_loop dev db results [] = results"
| "scan_loop dev db results (pkg # rest) =
     (case scan_one dev db pkg of
        Inl e \<Rightarrow> scan_loop dev db results rest
      | Inr entry \<Rightarrow> scan_loop dev db (results(pkg \<mapsto> entry)) rest)"

text \<open>
  \<open>scan_apps\<close>: without a device a RuntimeError; an exception of the enumeration is logged
  by the outer handler and raised again.
\<close>

definition scan_apps :: "device option \<Rightarrow> database \<Rightarrow> py_error + (string \<rightharpoonup> app_result)" where
  "scan_apps device db =
     (case device of
        None \<Rightarrow> Inl (RuntimeError ''No device connected. Call connect_device() first'')
      | Some dev \<Rightarrow>
          (case device_get_installed_apps dev of
             Inl e \<Rightarrow> Inl e
           | Inr installed_apps \<Rightarrow> Inr (scan_loop dev db Map.empty installed_apps)))"

text \<open>
  A device with three packages whose dump fails for the second one, and a device whose list
  command fails.
\<close>

definition three_apps :: device where
  "three_apps =
     adb_device
       \<lparr>returncode = 0,
        stdout = ''package:com.test.app1'' @ [CHR 0x0A] @ ''package:com.broken.app'' @ [CHR 0x0A]
                 @ ''package:com.example.app'' @ [CHR 0x0A]\<rparr>
       (\<lambda>pkg. if pkg = ''com.broken.app'' then \<lparr>returncode = 1, stdout = []\<rparr>
              else unrecognised_dump)"

definition no_listing :: device where
  "no_listing = adb_device \<lparr>returncode = 1, stdout = []\<rparr> (\<lambda>pkg. unrecognised_dump)"

section \<open>Properties of the string primitives\<close>






lemma split_on_nonempty: "split_on sep s \<noteq> []"
  by (induction sep s rule: split_on.induct) (auto split: list.splits)




section \<open>Properties of the collector risk model\<close>

lemma risk_level_present:
  "select_rows df p = Inr (row # rest) \<Longrightarrow>
     get_risk_level df p =
       (let f = parse_frequency (series_get row ''collection_frequency'' (PyInt 0))
        in if f > 75 then HIGH else if f > 25 then MEDIUM else LOW)"
  by (simp add: get_risk_level_def get_risk_level_try_def Let_def)

lemma risk_score_present:
  "select_rows df p = Inr (row # rest) \<Longrightarrow>
     get_risk_score df p =
       min 100 (rat_of_int (parse_frequency (series_get row ''collection_frequency'' (PyInt 0)))
                * (1 + rat_of_nat (length (parse_data_types
                                             (series_get row ''data_types'' (PyStr [])))) * (1 / 10)))"
  by (simp add: get_risk_score_def get_risk_score_try_def Let_def)


lemma parse_frequency_simps:
  "parse_frequency NA = 0" "parse_frequency (PyStr []) = 0"
  "parse_frequency (PyInt i) = i" "parse_frequency (PyFloat r) = trunc r"
  "parse_frequency PyInf = 0" "parse_frequency PyObject = 0"
  by (simp_all add: parse_frequency_def parse_frequency_try_def)






lemmas db_eval = select_rows_def series_get_def parse_frequency_def parse_frequency_try_def
  parse_data_types_def startswith_def lower_def strip_def lower_char_def is_space_def


lemma select_app2:
  "select_rows sample_db ''com.test.app2'' =
     Inr ([(''app_name'', PyStr ''Test App 2''), (''APK'', PyStr ''com.test.app2''),
           (''collection_frequency'', PyInt 75), (''data_types'', PyStr ''location'')] # [])"
  by (simp add: sample_db_def select_rows_def series_get_def)

lemma select_nonexistent: "select_rows sample_db ''com.test.nonexistent'' = Inr []"
  by (simp add: sample_db_def select_rows_def series_get_def)

lemma select_keyless: "select_rows keyless_db ''com.test.app1'' = Inl KeyError"
  by (simp add: keyless_db_def select_rows_def)



subsection \<open>Risk score\<close>




subsection \<open>Risk level\<close>

text \<open>
  C2. For a package identifier present in the reference table with parsed collection
  frequency f, get_risk_level returns HIGH iff f > 75, MEDIUM iff 25 < f <= 75 and LOW iff
  f <= 25 (and never NOT_FOUND); for a package identifier absent from the table it returns
  NOT_FOUND.
\<close>

theorem get_risk_level_thresholds:
  "(select_rows df pkg = Inr [] \<longrightarrow> get_risk_level df pkg = NOT_FOUND)
   \<and> (select_rows df pkg = Inr (row # rest)
        \<and> f = parse_frequency (series_get row ''collection_frequency'' (PyInt 0)) \<longrightarrow>
          (get_risk_level df pkg = HIGH \<longleftrightarrow> f > 75)
        \<and> (get_risk_level df pkg = MEDIUM \<longleftrightarrow> 25 < f \<and> f \<le> 75)
        \<and> (get_risk_level df pkg = LOW \<longleftrightarrow> f \<le> 25)
        \<and> get_risk_level df pkg \<noteq> NOT_FOUND)"
  by (auto simp: risk_level_present Let_def get_risk_level_def get_risk_level_try_def)

theorem get_risk_level_thresholds_witness:
  "select_rows sample_db ''com.test.app2'' =
     Inr [[(''app_name'', PyStr ''Test App 2''), (''APK'', PyStr ''com.test.app2''),
           (''collection_frequency'', PyInt 75), (''data_types'', PyStr ''location'')]]
   \<and> get_risk_level sample_db ''com.test.app2'' = MEDIUM
   \<and> select_rows sample_db ''com.test.nonexistent'' = Inr []
   \<and> get_risk_level sample_db ''com.test.nonexistent'' = NOT_FOUND"
  using select_app2 select_nonexistent
    get_risk_level_thresholds [of sample_db "''com.test.app2''"
      "[(''app_name'', PyStr ''Test App 2''), (''APK'', PyStr ''com.test.app2''),
        (''collection_frequency'', PyInt 75), (''data_types'', PyStr ''location'')]" "[]" 75]
    get_risk_level_thresholds [of sample_db "''com.test.nonexistent''"]
  by (simp add: series_get_def parse_frequency_simps)

subsection \<open>Frequency parsing\<close>




subsection \<open>Range and monotonicity of the score\<close>

text \<open>
  The score never exceeds 100. For a row whose parsed frequency is not negative it is not
  negative either, and it does not decrease when the frequency or the number of data-type
  tokens grows.
\<close>

lemma get_risk_score_at_most_100: "get_risk_score df pkg \<le> 100"
  by (simp add: get_risk_score_def get_risk_score_try_def Let_def split: sum.splits list.splits)

lemma get_risk_score_nonneg:
  assumes "select_rows df pkg = Inr (row # rest)"
    and "0 \<le> parse_frequency (series_get row ''collection_frequency'' (PyInt 0))"
  shows "0 \<le> get_risk_score df pkg"
proof -
  have "0 \<le> rat_of_int (parse_frequency (series_get row ''collection_frequency'' (PyInt 0)))
            * (1 + rat_of_nat (length (parse_data_types
                                         (series_get row ''data_types'' (PyStr [])))) * (1 / 10))"
    using assms(2) by (intro mult_nonneg_nonneg) simp_all
  then show ?thesis
    by (simp add: risk_score_present [OF assms(1)])
qed

lemma get_risk_score_monotone:
  assumes "select_rows df pkg = Inr (row # rest)"
    and "select_rows df' pkg' = Inr (row' # rest')"
    and "0 \<le> parse_frequency (series_get row ''collection_frequency'' (PyInt 0))"
    and "parse_frequency (series_get row ''collection_frequency'' (PyInt 0))
           \<le> parse_frequency (series_get row' ''collection_frequency'' (PyInt 0))"
    and "length (parse_data_types (series_get row ''data_types'' (PyStr [])))
           \<le> length (parse_data_types (series_get row' ''data_types'' (PyStr [])))"
  shows "get_risk_score df pkg \<le> get_risk_score df' pkg'"
proof -
  define f where "f = parse_frequency (series_get row ''collection_frequency'' (PyInt 0))"
  define f' where "f' = parse_frequency (series_get row' ''collection_frequency'' (PyInt 0))"
  define n where "n = length (parse_data_types (series_get row ''data_types'' (PyStr [])))"
  define n' where "n' = length (parse_data_types (series_get row' ''data_types'' (PyStr [])))"
  have "rat_of_int f * (1 + rat_of_nat n * (1 / 10)) \<le> rat_of_int f' * (1 + rat_of_nat n' * (1 / 10))"
    using assms(3-5) unfolding f_def [symmetric] f'_def [symmetric] n_def [symmetric] n'_def [symmetric]
    by (intro mult_mono) simp_all
  then have "min 100 (rat_of_int f * (1 + rat_of_nat n * (1 / 10)))
               \<le> min 100 (rat_of_int f' * (1 + rat_of_nat n' * (1 / 10)))"
    by (simp add: min_le_iff_disj)
  then show ?thesis
    by (simp add: risk_score_present [OF assms(1)] risk_score_present [OF assms(2)]
        f_def f'_def n_def n'_def)
qed

text \<open>
  C4. The risk score is documented to lie in 0..100 and the claim adds that it does not
  decrease when the number of data types grows. For a row whose collection frequency is the
  float -5.0 the code returns -5.5 with data_types "location" and -5 with no data types: the
  score is below 0, and it decreases when a data type is added.
\<close>

theorem get_risk_score_negative:
  "get_risk_score
     (DataFrame [''APK'', ''collection_frequency'', ''data_types'']
        [[(''APK'', PyStr ''com.neg.app''), (''collection_frequency'', PyFloat (- 5)),
          (''data_types'', PyStr ''location'')]]) ''com.neg.app'' = - 11 / 2
   \<and> get_risk_score
     (DataFrame [''APK'', ''collection_frequency'', ''data_types'']
        [[(''APK'', PyStr ''com.neg.app''), (''collection_frequency'', PyFloat (- 5)),
          (''data_types'', NA)]]) ''com.neg.app'' = - 5"
  by (simp add: get_risk_score_def get_risk_score_try_def db_eval trunc_def)

subsection \<open>Absent packages and failing table accesses\<close>

text \<open>
  C8. When the package identifier is absent from the reference table, and when the access to
  the table raises, get_risk_level returns NOT_FOUND, get_risk_score returns 0.0, and
  get_risk_factors and get_known_behaviors return empty lists; each operation returns its
  default whenever its guarded body raises.
\<close>

theorem absent_or_failing_defaults:
  "((select_rows df pkg = Inr [] \<or> select_rows df pkg = Inl e) \<longrightarrow>
      get_risk_level df pkg = NOT_FOUND \<and> get_risk_score df pkg = 0
      \<and> get_risk_factors df pkg = [] \<and> get_known_behaviors df pkg = [])
   \<and> (get_risk_level_try df pkg = Inl e \<longrightarrow> get_risk_level df pkg = NOT_FOUND)
   \<and> (get_risk_score_try df pkg = Inl e \<longrightarrow> get_risk_score df pkg = 0)
   \<and> (get_risk_factors_try df pkg = Inl e \<longrightarrow> get_risk_factors df pkg = [])
   \<and> (get_known_behaviors_try df pkg = Inl e \<longrightarrow> get_known_behaviors df pkg = [])"
  by (auto simp: get_risk_level_def get_risk_level_try_def get_risk_score_def get_risk_score_try_def
      get_risk_factors_def get_risk_factors_try_def get_known_behaviors_def get_known_behaviors_try_def)

theorem absent_or_failing_defaults_witness:
  "select_rows sample_db ''com.test.nonexistent'' = Inr []
   \<and> get_risk_level sample_db ''com.test.nonexistent'' = NOT_FOUND
   \<and> get_risk_score sample_db ''com.test.nonexistent'' = 0
   \<and> get_risk_factors sample_db ''com.test.nonexistent'' = []
   \<and> get_known_behaviors sample_db ''com.test.nonexistent'' = []
   \<and> select_rows keyless_db ''com.test.app1'' = Inl KeyError
   \<and> get_risk_level_try keyless_db ''com.test.app1'' = Inl KeyError
   \<and> get_risk_level keyless_db ''com.test.app1'' = NOT_FOUND
   \<and> get_risk_score keyless_db ''com.test.app1'' = 0
   \<and> get_risk_factors keyless_db ''com.test.app1'' = []
   \<and> get_known_behaviors keyless_db ''com.test.app1'' = []"
proof -
  have t: "get_risk_level_try keyless_db ''com.test.app1'' = Inl KeyError"
    by (simp add: get_risk_level_try_def select_keyless)
  show ?thesis
    using select_nonexistent select_keyless t
      absent_or_failing_defaults [of sample_db "''com.test.nonexistent''" KeyError]
      absent_or_failing_defaults [of keyless_db "''com.test.app1''" KeyError]
    by simp
qed

subsection \<open>Level and score agree at the HIGH threshold\<close>



subsection \<open>Tokens of the data types\<close>





section \<open>Properties of the permission categorizer\<close>

lemma find_category_key:
  "find_category T p = Some c \<Longrightarrow> c \<in> fst ` set T"
  by (induction T p rule: find_category.induct) (auto split: if_splits)

lemma append_to_map:
  "distinct (map fst T) \<Longrightarrow>
     append_to (map (\<lambda>(c, _). (c, g c)) T) k v
       = map (\<lambda>(c, _). (c, if c = k then g c @ [v] else g c)) T"
proof (induction T)
  case Nil
  then show ?case by simp
next
  case (Cons a T)
  obtain c x where a: "a = (c, x)" by (cases a)
  show ?case
  proof (cases "c = k")
    case True
    with Cons.prems a have "k \<notin> fst ` set T" by simp
    then have "map (\<lambda>(c, _). (c, if c = k then g c @ [v] else g c)) T
                 = map (\<lambda>(c, _). (c, g c)) T"
      by (intro map_cong) force+
    with True a show ?thesis by simp
  next
    case False
    with Cons a show ?thesis by simp
  qed
qed

lemma mset_concat_append_to:
  "k \<in> fst ` set d \<Longrightarrow>
     mset (concat (map snd (append_to d k v))) = mset (concat (map snd d)) + {#v#}"
  by (induction d k v rule: append_to.induct) auto

lemma map_fst_append_to: "map fst (append_to d k v) = map fst d"
  by (induction d k v rule: append_to.induct) auto

lemma mset_concat_filter_nonempty:
  "mset (concat (map snd (filter (\<lambda>(k, v). v \<noteq> []) d))) = mset (concat (map snd d))"
  by (induction d) auto

lemma distinct_category_names: "distinct (map fst PERMISSION_CATEGORIES)"
  by (simp add: PERMISSION_CATEGORIES_def)

lemma sorted_into_step:
  assumes "sorted_into seen result"
  shows "sorted_into (seen @ [p]) (categorize_step result p)"
proof (cases "find_category PERMISSION_CATEGORIES p")
  case None
  with assms show ?thesis
    by (simp add: sorted_into_def categorize_step_def Let_def)
next
  case (Some k)
  have "append_to
          (map (\<lambda>(c, _). (c, filter (\<lambda>p. find_category PERMISSION_CATEGORIES p = Some c) seen))
             PERMISSION_CATEGORIES) k p
        = map (\<lambda>(c, _). (c, if c = k
                              then filter (\<lambda>p. find_category PERMISSION_CATEGORIES p = Some c) seen @ [p]
                              else filter (\<lambda>p. find_category PERMISSION_CATEGORIES p = Some c) seen))
            PERMISSION_CATEGORIES"
    by (rule append_to_map [OF distinct_category_names])
  also have "\<dots> = map (\<lambda>(c, _). (c, filter (\<lambda>p. find_category PERMISSION_CATEGORIES p = Some c)
                                         (seen @ [p])))
                    PERMISSION_CATEGORIES"
    using Some by (intro map_cong) auto
  finally show ?thesis
    using assms Some by (simp add: sorted_into_def categorize_step_def Let_def)
qed

lemma sorted_into_foldl:
  "sorted_into seen result \<Longrightarrow> sorted_into (seen @ ps) (foldl categorize_step result ps)"
proof (induction ps arbitrary: seen result)
  case Nil
  then show ?case by simp
next
  case (Cons p ps)
  from Cons.IH [OF sorted_into_step [OF Cons.prems, of p]] show ?case by simp
qed

lemma sorted_into_initial:
  "sorted_into []
     \<lparr>privacy_critical = [],
      categories = map (\<lambda>(category, _). (category, [])) PERMISSION_CATEGORIES,
      other = []\<rparr>"
  by (simp add: sorted_into_def)

lemma mset_concat_filter_Cons:
  "mset (concat (map (\<lambda>(c, _). filter (P c) (p # ps)) T))
     = mset (concat (map (\<lambda>(c, _). if P c p then [p] else []) T))
       + mset (concat (map (\<lambda>(c, _). filter (P c) ps) T))"
  by (induction T) auto

lemma mset_concat_single:
  "distinct (map fst T) \<Longrightarrow>
     mset (concat (map (\<lambda>(c, _). if r = Some c then [p] else []) T))
       = (if r \<in> Some ` fst ` set T then {#p#} else {#})"
  by (induction T) (auto simp: image_iff)

lemma mset_sorted:
  assumes "distinct (map fst T)"
  shows "mset (concat (map (\<lambda>(c, _). filter (\<lambda>p. find_category T p = Some c) ps) T))
           + mset (filter (\<lambda>p. find_category T p = None) ps) = mset ps"
proof (induction ps)
  case Nil
  have "concat (map (\<lambda>(c, _). []) T) = ([] :: string list)"
    by (induction T) auto
  then show ?case by simp
next
  case (Cons p ps)
  have "find_category T p \<in> Some ` fst ` set T \<longleftrightarrow> find_category T p \<noteq> None"
    using find_category_key [of T p] by (cases "find_category T p") auto
  then have one: "mset (concat (map (\<lambda>(c, _). if find_category T p = Some c then [p] else []) T))
              = (if find_category T p = None then {#} else {#p#})"
    by (simp only: mset_concat_single [OF assms]) simp
  have "mset (concat (map (\<lambda>(c, _). filter (\<lambda>q. find_category T q = Some c) (p # ps)) T))
          = (if find_category T p = None then {#} else {#p#})
            + mset (concat (map (\<lambda>(c, _). filter (\<lambda>q. find_category T q = Some c) ps) T))"
    by (simp only: mset_concat_filter_Cons one)
  with Cons.IH show ?case
    by (cases "find_category T p = None") (simp_all add: add.assoc [symmetric])
qed

lemma categorize_permissions_sorted:
  "sorted_into perms
     (foldl categorize_step
        \<lparr>privacy_critical = [],
         categories = map (\<lambda>(category, _). (category, [])) PERMISSION_CATEGORIES,
         other = []\<rparr>
        perms)"
  using sorted_into_foldl [OF sorted_into_initial, of perms] by simp

text \<open>
  C5. categorize_permissions partitions its input: the category lists of the result together
  with the \<open>other\<close> list hold every permission of the input exactly as often as the input
  does. Each category of the table that is first to match some permission appears with those
  permissions in input order, categories that are never the first match are omitted, and
  \<open>other\<close> holds the permissions that no category matches.
\<close>

theorem categorize_permissions_partition:
  "mset (concat (map snd (categories (categorize_permissions perms)))
         @ other (categorize_permissions perms)) = mset perms
   \<and> categories (categorize_permissions perms)
       = filter (\<lambda>(k, v). v \<noteq> [])
           (map (\<lambda>(c, _). (c, filter (\<lambda>p. find_category PERMISSION_CATEGORIES p = Some c)
                                  perms))
              PERMISSION_CATEGORIES)
   \<and> other (categorize_permissions perms)
       = filter (\<lambda>p. find_category PERMISSION_CATEGORIES p = None) perms
   \<and> privacy_critical (categorize_permissions perms)
       = filter (\<lambda>p. p \<in> set PRIVACY_CRITICAL_PERMISSIONS) perms"
proof -
  define result where "result = foldl categorize_step
        \<lparr>privacy_critical = [],
         categories = map (\<lambda>(category, _). (category, [])) PERMISSION_CATEGORIES,
         other = []\<rparr>
        perms"
  have s: "sorted_into perms result"
    unfolding result_def by (rule categorize_permissions_sorted)
  have r: "categorize_permissions perms
             = result\<lparr>categories := filter (\<lambda>(k, v). v \<noteq> []) (categories result)\<rparr>"
    by (simp add: categorize_permissions_def result_def Let_def)
  have c: "categories result
             = map (\<lambda>(c, _). (c, filter (\<lambda>p. find_category PERMISSION_CATEGORIES p = Some c)
                                    perms))
                 PERMISSION_CATEGORIES"
    and o: "other result = filter (\<lambda>p. find_category PERMISSION_CATEGORIES p = None) perms"
    and pc: "privacy_critical result
               = filter (\<lambda>p. p \<in> set PRIVACY_CRITICAL_PERMISSIONS) perms"
    using s by (simp_all add: sorted_into_def)
  have "map snd (map (\<lambda>(c, _). (c, filter (\<lambda>p. find_category PERMISSION_CATEGORIES p = Some c)
                                      perms)) PERMISSION_CATEGORIES)
          = map (\<lambda>(c, _). filter (\<lambda>p. find_category PERMISSION_CATEGORIES p = Some c) perms)
              PERMISSION_CATEGORIES"
    by (simp add: case_prod_unfold comp_def)
  then have "mset (concat (map snd (categories result))) + mset (other result) = mset perms"
    using mset_sorted [OF distinct_category_names, of perms] by (simp only: c o)
  then have m: "mset (concat (map snd (categories (categorize_permissions perms)))
                      @ other (categorize_permissions perms)) = mset perms"
    by (simp add: r mset_concat_filter_nonempty)
  show ?thesis
    using m c o pc by (simp add: r)
qed

lemma categorize_permissions_example:
  "categorize_permissions
     [''android.permission.CAMERA'', ''android.permission.INTERNET'',
      ''android.permission.ACCESS_FINE_LOCATION'', ''android.permission.CAMERA'']
   = \<lparr>privacy_critical =
        [''android.permission.CAMERA'', ''android.permission.ACCESS_FINE_LOCATION'',
         ''android.permission.CAMERA''],
      categories =
        [(''location'', [''android.permission.ACCESS_FINE_LOCATION'']),
         (''camera'', [''android.permission.CAMERA'', ''android.permission.CAMERA''])],
      other = [''android.permission.INTERNET'']\<rparr>"
  by (simp add: categorize_permissions_def categorize_step_def PERMISSION_CATEGORIES_def
      PRIVACY_CRITICAL_PERMISSIONS_def Let_def)

theorem categorize_permissions_partition_witness:
  "categories (categorize_permissions
     [''android.permission.CAMERA'', ''android.permission.INTERNET'',
      ''android.permission.ACCESS_FINE_LOCATION'', ''android.permission.CAMERA''])
     = [(''location'', [''android.permission.ACCESS_FINE_LOCATION'']),
        (''camera'', [''android.permission.CAMERA'', ''android.permission.CAMERA''])]
   \<and> other (categorize_permissions
     [''android.permission.CAMERA'', ''android.permission.INTERNET'',
      ''android.permission.ACCESS_FINE_LOCATION'', ''android.permission.CAMERA''])
     = [''android.permission.INTERNET'']
   \<and> mset ([''android.permission.ACCESS_FINE_LOCATION'', ''android.permission.CAMERA'',
             ''android.permission.CAMERA'', ''android.permission.INTERNET''])
     = mset [''android.permission.CAMERA'', ''android.permission.INTERNET'',
             ''android.permission.ACCESS_FINE_LOCATION'', ''android.permission.CAMERA'']"
  using categorize_permissions_partition
          [of "[''android.permission.CAMERA'', ''android.permission.INTERNET'',
                ''android.permission.ACCESS_FINE_LOCATION'', ''android.permission.CAMERA'']"]
  by (simp only: categorize_permissions_example categorized.simps) simp

section \<open>Properties of the device text parser\<close>

lemma contains_split_on:
  "sep \<noteq> [] \<Longrightarrow> contains s sep \<Longrightarrow> 2 \<le> length (split_on sep s)"
proof (induction s)
  case Nil
  then show ?case by simp
next
  case (Cons c cs)
  show ?case
  proof (cases "startswith (c # cs) sep")
    case True
    have "1 \<le> length (split_on sep (drop (length sep - 1) cs))"
      using split_on_nonempty [of sep "drop (length sep - 1) cs"]
      by (cases "split_on sep (drop (length sep - 1) cs)") simp_all
    with True Cons.prems show ?thesis by simp
  next
    case False
    with Cons.prems have "contains cs sep" by simp
    from Cons.IH [OF Cons.prems(1) this] False show ?thesis
      by (cases "split_on sep cs") simp_all
  qed
qed

lemma item_split_on_0: "item (split_on sep s) 0 = Inr (split_on sep s ! 0)"
  using split_on_nonempty [of sep s] by (simp add: item_def)

lemma item_split_on_1:
  "sep \<noteq> [] \<Longrightarrow> contains s sep \<Longrightarrow> item (split_on sep s) (Suc 0) = Inr (split_on sep s ! 1)"
  using contains_split_on [of sep s] by (simp add: item_def)

text \<open>No iteration of the loop raises.\<close>

lemmas parse_line_eval = parse_line_def Let_def item_split_on_0 item_split_on_1

lemma parse_line_not_error: "\<not> isl (parse_line st raw)"
  by (simp add: parse_line_eval split: sum.split)

lemma parse_line_total: "\<exists>st'. parse_line st raw = Inr st'"
  using parse_line_not_error [of st raw] by (cases "parse_line st raw") simp_all

lemma parse_lines_total: "\<exists>st'. parse_lines st ls = Inr st'"
proof (induction ls arbitrary: st)
  case Nil
  show ?case by simp
next
  case (Cons raw ls)
  obtain st1 where "parse_line st raw = Inr st1"
    using parse_line_total by blast
  with Cons.IH [of st1] show ?case by simp
qed

text \<open>A field that no iteration changes has its initial value after the loop.\<close>

lemma parse_lines_keeps:
  assumes "\<And>st raw st'. raw \<in> set ls \<Longrightarrow> parse_line st raw = Inr st' \<Longrightarrow> f (fst st') = f (fst st)"
    and "parse_lines st ls = Inr st'"
  shows "f (fst st') = f (fst st)"
  using assms
proof (induction ls arbitrary: st)
  case Nil
  then show ?case by simp
next
  case (Cons raw ls)
  from Cons.prems(2) obtain st1 where
    a: "parse_line st raw = Inr st1" and b: "parse_lines st1 ls = Inr st'"
    by (auto split: sum.splits)
  have "f (fst st') = f (fst st1)"
  proof (rule Cons.IH)
    show "parse_lines st1 ls = Inr st'" by (rule b)
  next
    fix s r s'
    assume "r \<in> set ls" and "parse_line s r = Inr s'"
    then show "f (fst s') = f (fst s)"
      using Cons.prems(1) [of r s s'] by simp
  qed
  moreover have "f (fst st1) = f (fst st)"
    using Cons.prems(1) [OF _ a] by simp
  ultimately show ?case by simp
qed

text \<open>
  What one iteration leaves alone: each field keeps its value on a line that does not match
  the field's pattern.
\<close>

lemma parse_line_package_id_projr:
  "package_id (fst (projr (parse_line st raw))) = package_id (fst st)"
  by (simp add: parse_line_eval split: sum.split)

lemma parse_line_package_id:
  "parse_line st raw = Inr st' \<Longrightarrow> package_id (fst st') = package_id (fst st)"
  using parse_line_package_id_projr [where raw = raw and st = st] by simp

lemma parse_line_app_name_projr:
  "\<not> (contains (strip raw) ''applicationInfo'' \<and> contains (strip raw) ''label=''
       \<and> \<not> isl (extract_label (strip raw))) \<Longrightarrow>
   app_name (fst (projr (parse_line st raw))) = app_name (fst st)"
  by (cases "extract_label (strip raw)") (auto simp: parse_line_eval)

lemma parse_line_app_name:
  "\<not> (contains (strip raw) ''applicationInfo'' \<and> contains (strip raw) ''label=''
       \<and> \<not> isl (extract_label (strip raw))) \<Longrightarrow>
   parse_line st raw = Inr st' \<Longrightarrow> app_name (fst st') = app_name (fst st)"
  using parse_line_app_name_projr [where raw = raw and st = st] by simp

lemma parse_line_install_source_projr:
  "\<not> contains (strip raw) ''installInitiator:'' \<Longrightarrow>
   install_source (fst (projr (parse_line st raw))) = install_source (fst st)"
  by (simp add: parse_line_eval split: sum.split)

lemma parse_line_install_source:
  "\<not> contains (strip raw) ''installInitiator:'' \<Longrightarrow>
   parse_line st raw = Inr st' \<Longrightarrow> install_source (fst st') = install_source (fst st)"
  using parse_line_install_source_projr [where raw = raw and st = st] by simp

lemma parse_line_first_install_time_projr:
  "\<not> contains (strip raw) ''firstInstallTime='' \<Longrightarrow>
   first_install_time (fst (projr (parse_line st raw))) = first_install_time (fst st)"
  by (simp add: parse_line_eval split: sum.split)

lemma parse_line_first_install_time:
  "\<not> contains (strip raw) ''firstInstallTime='' \<Longrightarrow>
   parse_line st raw = Inr st' \<Longrightarrow> first_install_time (fst st') = first_install_time (fst st)"
  using parse_line_first_install_time_projr [where raw = raw and st = st] by simp

lemma parse_line_last_update_time_projr:
  "\<not> contains (strip raw) ''lastUpdateTime='' \<Longrightarrow>
   last_update_time (fst (projr (parse_line st raw))) = last_update_time (fst st)"
  by (simp add: parse_line_eval split: sum.split)

lemma parse_line_last_update_time:
  "\<not> contains (strip raw) ''lastUpdateTime='' \<Longrightarrow>
   parse_line st raw = Inr st' \<Longrightarrow> last_update_time (fst st') = last_update_time (fst st)"
  using parse_line_last_update_time_projr [where raw = raw and st = st] by simp

lemma parse_line_requested_projr:
  "\<not> startswith (strip raw) ''android.permission.'' \<Longrightarrow>
   requested (permissions (fst (projr (parse_line st raw)))) = requested (permissions (fst st))"
  by (simp add: parse_line_eval split: sum.split)

lemma parse_line_requested:
  "\<not> startswith (strip raw) ''android.permission.'' \<Longrightarrow>
   parse_line st raw = Inr st' \<Longrightarrow> requested (permissions (fst st')) = requested (permissions (fst st))"
  using parse_line_requested_projr [where raw = raw and st = st] by simp

lemma parse_line_granted_projr:
  "\<not> contains (strip raw) ''granted=true'' \<Longrightarrow>
   granted (permissions (fst (projr (parse_line st raw)))) = granted (permissions (fst st))"
  by (simp add: parse_line_eval split: sum.split)

lemma parse_line_granted:
  "\<not> contains (strip raw) ''granted=true'' \<Longrightarrow>
   parse_line st raw = Inr st' \<Longrightarrow> granted (permissions (fst st')) = granted (permissions (fst st))"
  using parse_line_granted_projr [where raw = raw and st = st] by simp

lemma parse_line_denied_projr:
  "\<not> contains (strip raw) ''granted=false'' \<Longrightarrow>
   denied (permissions (fst (projr (parse_line st raw)))) = denied (permissions (fst st))"
  by (simp add: parse_line_eval split: sum.split)

lemma parse_line_denied:
  "\<not> contains (strip raw) ''granted=false'' \<Longrightarrow>
   parse_line st raw = Inr st' \<Longrightarrow> denied (permissions (fst st')) = denied (permissions (fst st))"
  using parse_line_denied_projr [where raw = raw and st = st] by simp

lemma parse_line_network_permissions_projr:
  "\<not> (contains (strip raw) ''INTERNET'' \<or> contains (strip raw) ''NETWORK'') \<Longrightarrow>
   network_permissions (fst (projr (parse_line st raw))) = network_permissions (fst st)"
  by (simp add: parse_line_eval split: sum.split)

lemma parse_line_network_permissions:
  "\<not> (contains (strip raw) ''INTERNET'' \<or> contains (strip raw) ''NETWORK'') \<Longrightarrow>
   parse_line st raw = Inr st' \<Longrightarrow> network_permissions (fst st') = network_permissions (fst st)"
  using parse_line_network_permissions_projr [where raw = raw and st = st] by simp

lemma parse_line_shared_libraries_projr:
  "\<not> contains (strip raw) ''libraryInfo'' \<Longrightarrow>
   shared_libraries (fst (projr (parse_line st raw))) = shared_libraries (fst st)"
  by (simp add: parse_line_eval split: sum.split)

lemma parse_line_shared_libraries:
  "\<not> contains (strip raw) ''libraryInfo'' \<Longrightarrow>
   parse_line st raw = Inr st' \<Longrightarrow> shared_libraries (fst st') = shared_libraries (fst st)"
  using parse_line_shared_libraries_projr [where raw = raw and st = st] by simp

lemma parse_line_shared_user_ids_projr:
  "\<not> contains (strip raw) ''sharedUser='' \<Longrightarrow>
   shared_user_ids (fst (projr (parse_line st raw))) = shared_user_ids (fst st)"
  by (simp add: parse_line_eval split: sum.split)

lemma parse_line_shared_user_ids:
  "\<not> contains (strip raw) ''sharedUser='' \<Longrightarrow>
   parse_line st raw = Inr st' \<Longrightarrow> shared_user_ids (fst st') = shared_user_ids (fst st)"
  using parse_line_shared_user_ids_projr [where raw = raw and st = st] by simp

lemma get_app_details_field:
  assumes "parse_lines (initial_details pkg, None) (split_on [CHR 0x0A] (stdout result)) = Inr st'"
    and "no_line result matches"
    and "\<And>st raw st1. \<not> matches (strip raw) \<Longrightarrow> parse_line st raw = Inr st1 \<Longrightarrow>
           f (fst st1) = f (fst st)"
  shows "f (fst st') = f (initial_details pkg)"
proof -
  have "f (fst st') = f (fst (initial_details pkg, None :: string option))"
  proof (rule parse_lines_keeps [OF _ assms(1)])
    fix st raw st1
    assume "raw \<in> set (split_on [CHR 0x0A] (stdout result))" and p: "parse_line st raw = Inr st1"
    with assms(2) have "\<not> matches (strip raw)" by (simp add: no_line_def)
    from assms(3) [OF this p] show "f (fst st1) = f (fst st)" .
  qed
  then show ?thesis by simp
qed

text \<open>
  C6. When the dump command succeeded, get_app_details returns a record for every text and
  package identifier. A field whose pattern matches no line has its default: app_name is the
  package identifier when no line with \<open>applicationInfo\<close> and \<open>label=\<close> gives a label; the
  install source and the two timestamps are absent when no line has their marker; the
  requested, granted and denied lists are empty when no line starts with
  \<open>android.permission.\<close>, has \<open>granted=true\<close>, has \<open>granted=false\<close>; the auxiliary lists
  are empty when no line has their markers.
\<close>

theorem get_app_details_defaults:
  assumes "returncode result = 0"
  shows "\<exists>d. get_app_details result pkg = Inr d \<and> package_id d = pkg
     \<and> (no_line result (\<lambda>line. contains line ''applicationInfo'' \<and> contains line ''label=''
                                 \<and> \<not> isl (extract_label line)) \<longrightarrow> app_name d = pkg)
     \<and> (no_line result (\<lambda>line. contains line ''installInitiator:'') \<longrightarrow> install_source d = None)
     \<and> (no_line result (\<lambda>line. contains line ''firstInstallTime='') \<longrightarrow>
          first_install_time d = None)
     \<and> (no_line result (\<lambda>line. contains line ''lastUpdateTime='') \<longrightarrow> last_update_time d = None)
     \<and> (no_line result (\<lambda>line. startswith line ''android.permission.'') \<longrightarrow>
          requested (permissions d) = [])
     \<and> (no_line result (\<lambda>line. contains line ''granted=true'') \<longrightarrow> granted (permissions d) = [])
     \<and> (no_line result (\<lambda>line. contains line ''granted=false'') \<longrightarrow> denied (permissions d) = [])
     \<and> (no_line result (\<lambda>line. contains line ''INTERNET'' \<or> contains line ''NETWORK'') \<longrightarrow>
          network_permissions d = [])
     \<and> (no_line result (\<lambda>line. contains line ''libraryInfo'') \<longrightarrow> shared_libraries d = [])
     \<and> (no_line result (\<lambda>line. contains line ''sharedUser='') \<longrightarrow> shared_user_ids d = [])"
proof -
  obtain st' where
    p: "parse_lines (initial_details pkg, None) (split_on [CHR 0x0A] (stdout result)) = Inr st'"
    using parse_lines_total by blast
  have g: "get_app_details result pkg = Inr (fst st')"
    using assms p by (simp add: get_app_details_def)
  have "package_id (fst st') = package_id (fst (initial_details pkg, None :: string option))"
    by (rule parse_lines_keeps [OF _ p]) (rule parse_line_package_id)
  then have f0: "package_id (fst st') = pkg" by (simp add: initial_details_def)
  have f1: "app_name (fst st') = pkg"
    if "no_line result (\<lambda>line. contains line ''applicationInfo'' \<and> contains line ''label=''
                                 \<and> \<not> isl (extract_label line))"
    using get_app_details_field [OF p that, of app_name] parse_line_app_name
    by (simp add: initial_details_def)
  have f2: "install_source (fst st') = None"
    if "no_line result (\<lambda>line. contains line ''installInitiator:'')"
    using get_app_details_field [OF p that, of install_source] parse_line_install_source
    by (simp add: initial_details_def)
  have f3: "first_install_time (fst st') = None"
    if "no_line result (\<lambda>line. contains line ''firstInstallTime='')"
    using get_app_details_field [OF p that, of first_install_time] parse_line_first_install_time
    by (simp add: initial_details_def)
  have f4: "last_update_time (fst st') = None"
    if "no_line result (\<lambda>line. contains line ''lastUpdateTime='')"
    using get_app_details_field [OF p that, of last_update_time] parse_line_last_update_time
    by (simp add: initial_details_def)
  have f5: "requested (permissions (fst st')) = []"
    if "no_line result (\<lambda>line. startswith line ''android.permission.'')"
    using get_app_details_field [OF p that, of "\<lambda>d. requested (permissions d)"]
      parse_line_requested
    by (simp add: initial_details_def)
  have f6: "granted (permissions (fst st')) = []"
    if "no_line result (\<lambda>line. contains line ''granted=true'')"
    using get_app_details_field [OF p that, of "\<lambda>d. granted (permissions d)"] parse_line_granted
    by (simp add: initial_details_def)
  have f7: "denied (permissions (fst st')) = []"
    if "no_line result (\<lambda>line. contains line ''granted=false'')"
    using get_app_details_field [OF p that, of "\<lambda>d. denied (permissions d)"] parse_line_denied
    by (simp add: initial_details_def)
  have f8: "network_permissions (fst st') = []"
    if "no_line result (\<lambda>line. contains line ''INTERNET'' \<or> contains line ''NETWORK'')"
    using get_app_details_field [OF p that, of network_permissions] parse_line_network_permissions
    by (simp add: initial_details_def)
  have f9: "shared_libraries (fst st') = []"
    if "no_line result (\<lambda>line. contains line ''libraryInfo'')"
    using get_app_details_field [OF p that, of shared_libraries] parse_line_shared_libraries
    by (simp add: initial_details_def)
  have f10: "shared_user_ids (fst st') = []"
    if "no_line result (\<lambda>line. contains line ''sharedUser='')"
    using get_app_details_field [OF p that, of shared_user_ids] parse_line_shared_user_ids
    by (simp add: initial_details_def)
  show ?thesis
    using g f0 f1 f2 f3 f4 f5 f6 f7 f8 f9 f10 by blast
qed

theorem get_app_details_defaults_witness:
  "returncode unrecognised_dump = 0
   \<and> (\<exists>d. get_app_details unrecognised_dump ''com.example.app'' = Inr d
          \<and> package_id d = ''com.example.app'' \<and> app_name d = ''com.example.app''
          \<and> install_source d = None \<and> first_install_time d = None \<and> last_update_time d = None
          \<and> requested (permissions d) = [] \<and> granted (permissions d) = []
          \<and> denied (permissions d) = [])"
proof -
  have rc: "returncode unrecognised_dump = 0"
    by (simp add: unrecognised_dump_def)
  have n1: "no_line unrecognised_dump
              (\<lambda>line. contains line ''applicationInfo'' \<and> contains line ''label=''
                       \<and> \<not> isl (extract_label line))"
    by code_simp
  have n2: "no_line unrecognised_dump (\<lambda>line. contains line ''installInitiator:'')"
    by code_simp
  have n3: "no_line unrecognised_dump (\<lambda>line. contains line ''firstInstallTime='')"
    by code_simp
  have n4: "no_line unrecognised_dump (\<lambda>line. contains line ''lastUpdateTime='')"
    by code_simp
  have n5: "no_line unrecognised_dump (\<lambda>line. startswith line ''android.permission.'')"
    by code_simp
  have n6: "no_line unrecognised_dump (\<lambda>line. contains line ''granted=true'')"
    by code_simp
  have n7: "no_line unrecognised_dump (\<lambda>line. contains line ''granted=false'')"
    by code_simp
  show ?thesis
    using rc n1 n2 n3 n4 n5 n6 n7
      get_app_details_defaults [OF rc, of "''com.example.app''"]
    by blast
qed

section \<open>Properties of the scan orchestrator\<close>

lemma scan_loop_result:
  "scan_loop dev db results pkgs pkg =
     (if pkg \<in> set pkgs
      then (case scan_one dev db pkg of Inl e \<Rightarrow> results pkg | Inr entry \<Rightarrow> Some entry)
      else results pkg)"
  by (induction pkgs arbitrary: results) (auto split: sum.splits)

lemma scan_one_raises:
  "isl (scan_one dev db pkg) \<longleftrightarrow>
     isl (device_get_app_details dev pkg) \<or> isl (database_get_app_details db pkg)
     \<or> isl (database_get_risk_level db pkg)"
  by (simp add: scan_one_def split: sum.splits)

text \<open>
  C7. If enumerating the installed packages raises, scan_apps raises the same exception and
  returns no result. Otherwise it returns a mapping: a package for which fetching the details,
  looking up the table or classifying raises has no entry; every other package of the list
  has its entry; nothing else has one.
\<close>

theorem scan_apps_skips_failures:
  "(device_get_installed_apps dev = Inl e \<longrightarrow> scan_apps (Some dev) db = Inl e)
   \<and> (device_get_installed_apps dev = Inr pkgs \<longrightarrow>
        (\<exists>results. scan_apps (Some dev) db = Inr results
           \<and> (\<forall>pkg. (isl (device_get_app_details dev pkg) \<or> isl (database_get_app_details db pkg)
                      \<or> isl (database_get_risk_level db pkg) \<longrightarrow> results pkg = None)
                  \<and> (pkg \<notin> set pkgs \<longrightarrow> results pkg = None)
                  \<and> (pkg \<in> set pkgs \<longrightarrow>
                       (\<forall>entry. scan_one dev db pkg = Inr entry \<longrightarrow> results pkg = Some entry)))))"
proof (intro conjI impI)
  assume "device_get_installed_apps dev = Inl e"
  then show "scan_apps (Some dev) db = Inl e"
    by (simp add: scan_apps_def)
next
  assume l: "device_get_installed_apps dev = Inr pkgs"
  have r: "scan_apps (Some dev) db = Inr (scan_loop dev db Map.empty pkgs)"
    using l by (simp add: scan_apps_def)
  have a: "scan_loop dev db Map.empty pkgs pkg = None"
    if "isl (device_get_app_details dev pkg) \<or> isl (database_get_app_details db pkg)
        \<or> isl (database_get_risk_level db pkg)" for pkg
  proof -
    from that have "isl (scan_one dev db pkg)" by (simp add: scan_one_raises)
    then show ?thesis
      by (cases "scan_one dev db pkg") (simp_all add: scan_loop_result)
  qed
  have b: "scan_loop dev db Map.empty pkgs pkg = None" if "pkg \<notin> set pkgs" for pkg
    using that by (simp add: scan_loop_result)
  have c: "scan_loop dev db Map.empty pkgs pkg = Some entry"
    if "pkg \<in> set pkgs" and "scan_one dev db pkg = Inr entry" for pkg entry
    using that by (simp add: scan_loop_result)
  show "\<exists>results. scan_apps (Some dev) db = Inr results
           \<and> (\<forall>pkg. (isl (device_get_app_details dev pkg) \<or> isl (database_get_app_details db pkg)
                      \<or> isl (database_get_risk_level db pkg) \<longrightarrow> results pkg = None)
                  \<and> (pkg \<notin> set pkgs \<longrightarrow> results pkg = None)
                  \<and> (pkg \<in> set pkgs \<longrightarrow>
                       (\<forall>entry. scan_one dev db pkg = Inr entry \<longrightarrow> results pkg = Some entry)))"
    using r a b c by blast
qed

theorem scan_apps_skips_failures_witness:
  "device_get_installed_apps three_apps
     = Inr [''com.test.app1'', ''com.broken.app'', ''com.example.app'']
   \<and> isl (device_get_app_details three_apps ''com.broken.app'')
   \<and> (\<exists>results. scan_apps (Some three_apps) (collectors_database sample_db) = Inr results
          \<and> results ''com.broken.app'' = None
          \<and> results ''com.test.app1'' \<noteq> None
          \<and> results ''com.example.app'' \<noteq> None
          \<and> results ''com.absent.app'' = None)
   \<and> device_get_installed_apps no_listing = Inl (RuntimeError ''ADB command failed'')
   \<and> scan_apps (Some no_listing) (collectors_database sample_db)
       = Inl (RuntimeError ''ADB command failed'')"
proof -
  have l: "device_get_installed_apps three_apps
             = Inr [''com.test.app1'', ''com.broken.app'', ''com.example.app'']"
    by code_simp
  have f: "isl (device_get_app_details three_apps ''com.broken.app'')"
    by code_simp
  have "\<not> isl (scan_one three_apps (collectors_database sample_db) ''com.test.app1'')"
    by code_simp
  then obtain e1 where
    s1: "scan_one three_apps (collectors_database sample_db) ''com.test.app1'' = Inr e1"
    by (cases "scan_one three_apps (collectors_database sample_db) ''com.test.app1''") simp_all
  have "\<not> isl (scan_one three_apps (collectors_database sample_db) ''com.example.app'')"
    by code_simp
  then obtain e2 where
    s2: "scan_one three_apps (collectors_database sample_db) ''com.example.app'' = Inr e2"
    by (cases "scan_one three_apps (collectors_database sample_db) ''com.example.app''") simp_all
  have n: "device_get_installed_apps no_listing = Inl (RuntimeError ''ADB command failed'')"
    by code_simp
  from l scan_apps_skips_failures
         [of three_apps KeyError "collectors_database sample_db"
             "[''com.test.app1'', ''com.broken.app'', ''com.example.app'']"]
  obtain results where
    r: "scan_apps (Some three_apps) (collectors_database sample_db) = Inr results"
    and a: "\<And>pkg. isl (device_get_app_details three_apps pkg) \<Longrightarrow> results pkg = None"
    and b: "\<And>pkg. pkg \<notin> set [''com.test.app1'', ''com.broken.app'', ''com.example.app'']
              \<Longrightarrow> results pkg = None"
    and c: "\<And>pkg entry. pkg \<in> set [''com.test.app1'', ''com.broken.app'', ''com.example.app'']
              \<Longrightarrow> scan_one three_apps (collectors_database sample_db) pkg = Inr entry
              \<Longrightarrow> results pkg = Some entry"
    by blast
  have "results ''com.broken.app'' = None" using a [OF f] .
  moreover have "results ''com.test.app1'' \<noteq> None" using c [OF _ s1] by simp
  moreover have "results ''com.example.app'' \<noteq> None" using c [OF _ s2] by simp
  moreover have "results ''com.absent.app'' = None" using b [of "''com.absent.app''"] by simp
  moreover have "scan_apps (Some no_listing) (collectors_database sample_db)
                   = Inl (RuntimeError ''ADB command failed'')"
    using n scan_apps_skips_failures
            [of no_listing "RuntimeError ''ADB command failed''" "collectors_database sample_db" "[]"]
    by simp
  ultimately show ?thesis using l f r n by blast
qed

end
